theory Spec2Isabelle
  imports Main
begin

section \<open>Python values of the notebook\<close>

text \<open>
  The notebook \<^verbatim>\<open>kerascont/version2_jason.ipynb\<close> builds its two configuration
  documents as nested Python dict literals. A dict literal is kept as the list of its
  key/value pairs in source order; a float is kept as the decimal fraction its literal
  denotes (\<^verbatim>\<open>.0001\<close> is \<open>PFloat 1 4\<close>, that is 1 / 10^4).
\<close>

datatype pyval =
    PStr string
  | PInt int
  | PBool bool
  | PFloat int nat
  | PList "pyval list"
  | PDict "(string \<times> pyval) list"

text \<open>The exceptions a cell of the notebook can end with.\<close>

datatype error =
    CalledProcessError int "string list"
  | ValueError
  | OSError
  | IndexError
  | KeyError string
  | UploadError
  | ParamValidationError
  | ClientError string

text \<open>\<^verbatim>\<open>d[k]\<close>: where a literal repeats a key the last pair wins; a missing key raises.\<close>

fun dict_get :: "pyval \<Rightarrow> string \<Rightarrow> pyval option" where
  "dict_get (PDict kvs) k = map_of (rev kvs) k"
| "dict_get _ k = None"

fun keys :: "pyval \<Rightarrow> string list" where
  "keys (PDict kvs) = map fst kvs"
| "keys _ = []"

fun items :: "pyval \<Rightarrow> pyval list" where
  "items (PList vs) = vs"
| "items _ = []"

fun lookup_path :: "pyval \<Rightarrow> string list \<Rightarrow> pyval option" where
  "lookup_path v [] = Some v"
| "lookup_path v (k # ks) =
     (case dict_get v k of None \<Rightarrow> None | Some v' \<Rightarrow> lookup_path v' ks)"

section \<open>What the notebook calls outside itself\<close>

text \<open>
  The notebook shells out to docker and calls the SageMaker SDK, boto3, NumPy and the
  standard library. Their behaviour is a parameter of the model (\<open>env\<close>); what the
  notebook did to the outside is recorded in \<open>world\<close>, the state every cell threads
  through. The type \<open>'x\<close> is the image array of a split.

  \<^item> \<open>shlex_split\<close>: \<^verbatim>\<open>shlex.split\<close>; \<open>None\<close> where it raises \<^verbatim>\<open>ValueError\<close>.
  \<^item> \<open>exit_status\<close>: the exit status of a command run to its end; \<open>None\<close> where the
    process cannot be started.
  \<^item> \<open>load_data\<close>: \<^verbatim>\<open>tf.keras.datasets.cifar10.load_data()\<close>; labels are
    unsigned bytes.
  \<^item> \<open>mkdtemp\<close>: the name of the n-th temporary directory.
  \<^item> \<open>upload_data\<close>: the location \<^verbatim>\<open>sagemaker_session.upload_data\<close> returns for
    a path, a bucket and a key prefix; \<open>None\<close> where the upload fails.
  \<^item> \<open>prepare_request\<close>: what the boto3 client does with the three arguments of
    \<^verbatim>\<open>create_hyper_parameter_tuning_job\<close> before it sends anything: it validates each
    of them against the service model and builds the request; \<open>Some err\<close> where it
    raises \<open>err\<close> instead (\<^verbatim>\<open>ParamValidationError\<close> for an argument the service
    model does not allow).
  \<^item> \<open>tuning_service\<close>: the outcome of the n-th attempt to send a request: the job is
    created, the service refuses the request, or the attempt fails in a way the client
    retries (an answer with a 5xx status, a broken connection).
  \<^item> \<open>max_retries\<close>: how many times the client retries.
\<close>

datatype answer =
    Created pyval
  | Refused error
  | Retryable error

record 'x env =
  shlex_split :: "string \<Rightarrow> string list option"
  exit_status :: "string list \<Rightarrow> int option"
  load_data :: "('x \<times> nat list) \<times> ('x \<times> nat list)"
  mkdtemp :: "nat \<Rightarrow> string"
  upload_data :: "string \<Rightarrow> string \<Rightarrow> string \<Rightarrow> string option"
  prepare_request :: "string \<Rightarrow> pyval \<Rightarrow> pyval \<Rightarrow> error option"
  tuning_service :: "nat \<Rightarrow> string \<Rightarrow> pyval \<Rightarrow> pyval \<Rightarrow> answer"
  max_retries :: nat

record 'x world =
  invocations :: "string list list"
  tempdirs :: nat
  files :: "(string \<times> 'x \<times> nat list list) list"
  uploads :: "(string \<times> string \<times> string) list"
  requests :: "(string \<times> pyval \<times> pyval) list"

text \<open>The globals the first code cell sets by itself.\<close>

definition prefix :: string where
  "prefix = ''sagemaker/DEMO-hpo-keras-cifar10''"

definition NUM_CLASSES :: nat where
  "NUM_CLASSES = 10"

section \<open>Building the image\<close>

definition get_image_name :: "string \<Rightarrow> string \<Rightarrow> string" where
  "get_image_name ecr_repository tensorflow_version_tag =
     ecr_repository @ '':tensorflow-'' @ tensorflow_version_tag"

text \<open>
  \<^verbatim>\<open>subprocess.check_call\<close>: run the command once, wait for it, raise
  \<^verbatim>\<open>CalledProcessError\<close> with the return code where that is not zero.
\<close>

definition check_call :: "'x env \<Rightarrow> string list \<Rightarrow> 'x world \<Rightarrow> (error + int) \<times> 'x world" where
  "check_call e argv w =
     (let w' = w\<lparr>invocations := invocations w @ [argv]\<rparr>
      in case exit_status e argv of
           None \<Rightarrow> (Inl OSError, w')
         | Some retcode \<Rightarrow>
             if retcode \<noteq> 0 then (Inl (CalledProcessError retcode argv), w')
             else (Inr 0, w'))"

definition build_image :: "'x env \<Rightarrow> string \<Rightarrow> string \<Rightarrow> 'x world \<Rightarrow> (error + unit) \<times> 'x world" where
  "build_image e name version w =
     (let cmd = ''docker build -t '' @ name @ '' --build-arg VERSION='' @ version
                  @ '' -f Dockerfile .''
      in case shlex_split e cmd of
           None \<Rightarrow> (Inl ValueError, w)
         | Some argv \<Rightarrow>
             (case check_call e argv w of
                (Inl err, w') \<Rightarrow> (Inl err, w')
              | (Inr _, w') \<Rightarrow> (Inr (), w')))"

section \<open>Packaging the dataset\<close>

text \<open>
  Modelled from the spec: \<^verbatim>\<open>tf.keras.utils.to_categorical\<close> is a function of the
  TensorFlow library and is not in the repository. The spec says of it that packaging
  must "one-hot encode labels to a width equal to the declared class count, and must fail
  if any label value is \<ge> that count". A row is the list of its entries, 1 at the
  label's index and 0 elsewhere.
\<close>

definition to_categorical :: "nat list \<Rightarrow> nat \<Rightarrow> error + nat list list" where
  "to_categorical y num_classes =
     (if list_ex (\<lambda>l. num_classes \<le> l) y then Inl IndexError
      else Inr (map (\<lambda>l. map (\<lambda>i. if i = l then 1 else 0) [0..<num_classes]) y))"

text \<open>\<^verbatim>\<open>os.path.join\<close> of a directory and a relative file name.\<close>

definition os_path_join :: "string \<Rightarrow> string \<Rightarrow> string" where
  "os_path_join a b = (if a = [] \<or> last a = CHR ''/'' then a @ b else a @ ''/'' @ b)"

text \<open>
  \<^verbatim>\<open>upload_channel\<close> reads the globals \<^verbatim>\<open>NUM_CLASSES\<close> and \<^verbatim>\<open>bucket\<close>; the
  bucket's name comes from the SDK and is an argument here.
\<close>

definition upload_channel ::
  "'x env \<Rightarrow> string \<Rightarrow> string \<Rightarrow> 'x \<Rightarrow> nat list \<Rightarrow> 'x world \<Rightarrow> (error + string) \<times> 'x world" where
  "upload_channel e bucket channel_name x y w =
     (case to_categorical y NUM_CLASSES of
        Inl err \<Rightarrow> (Inl err, w)
      | Inr y' \<Rightarrow>
          (let file_path = mkdtemp e (tempdirs w);
               w1 = w\<lparr>tempdirs := Suc (tempdirs w)\<rparr>;
               w2 = w1\<lparr>files := files w1
                      @ [(os_path_join file_path ''cifar-10-npz-compressed.npz'', x, y')]\<rparr>;
               key_prefix = ''data/DEMO-keras-cifar10/'' @ channel_name;
               w3 = w2\<lparr>uploads := uploads w2 @ [(file_path, bucket, key_prefix)]\<rparr>
           in case upload_data e file_path bucket key_prefix of
                None \<Rightarrow> (Inl UploadError, w3)
              | Some location \<Rightarrow> (Inr location, w3)))"

definition upload_training_data :: "'x env \<Rightarrow> string \<Rightarrow> 'x world \<Rightarrow> (error + pyval) \<times> 'x world" where
  "upload_training_data e bucket w =
     (case load_data e of ((x_train, y_train), (x_test, y_test)) \<Rightarrow>
        (case upload_channel e bucket ''train'' x_train y_train w of
           (Inl err, w1) \<Rightarrow> (Inl err, w1)
         | (Inr train_data_location, w1) \<Rightarrow>
             (case upload_channel e bucket ''test'' x_test y_test w1 of
                (Inl err, w2) \<Rightarrow> (Inl err, w2)
              | (Inr test_data_location, w2) \<Rightarrow>
                  (Inr (PDict [(''train'', PStr train_data_location),
                               (''test'', PStr test_data_location)]), w2))))"

section \<open>The local run\<close>

definition hyperparameters :: pyval where
  "hyperparameters = PDict
     [(''batch_size'', PInt 32),
      (''data_augmentation'', PBool True),
      (''learning_rate'', PFloat 1 4),
      (''width_shift_range'', PFloat 1 1),
      (''height_shift_range'', PFloat 1 1),
      (''epochs'', PInt 1)]"


section \<open>The name of the tuning job\<close>

text \<open>
  \<^verbatim>\<open>gmtime()\<close> returns the fields of the current time; \<^verbatim>\<open>strftime\<close> writes the
  directives \<^verbatim>\<open>%Y %m %d %H %M %S\<close> in decimal, two digits each (four for the year)
  with leading zeros, and copies every other character.
\<close>

record struct_time =
  tm_year :: nat
  tm_mon :: nat
  tm_mday :: nat
  tm_hour :: nat
  tm_min :: nat
  tm_sec :: nat

definition digit_char :: "nat \<Rightarrow> char" where
  "digit_char d = char_of (48 + d)"

definition two_digits :: "nat \<Rightarrow> string" where
  "two_digits n = [digit_char (n div 10 mod 10), digit_char (n mod 10)]"

fun strftime :: "string \<Rightarrow> struct_time \<Rightarrow> string" where
  "strftime [] t = []"
| "strftime [c] t = [c]"
| "strftime (c # d # fmt) t =
     (if c = CHR ''%'' then
        (if d = CHR ''Y'' then two_digits (tm_year t div 100) @ two_digits (tm_year t)
         else if d = CHR ''m'' then two_digits (tm_mon t)
         else if d = CHR ''d'' then two_digits (tm_mday t)
         else if d = CHR ''H'' then two_digits (tm_hour t)
         else if d = CHR ''M'' then two_digits (tm_min t)
         else if d = CHR ''S'' then two_digits (tm_sec t)
         else [c, d]) @ strftime fmt t
      else c # strftime (d # fmt) t)"

text \<open>The fields \<^verbatim>\<open>gmtime()\<close> can return.\<close>

definition valid_time :: "struct_time \<Rightarrow> bool" where
  "valid_time t \<longleftrightarrow>
     1 \<le> tm_mon t \<and> tm_mon t \<le> 12 \<and> 1 \<le> tm_mday t \<and> tm_mday t \<le> 31
     \<and> tm_hour t < 24 \<and> tm_min t < 60 \<and> tm_sec t \<le> 61"

definition tuning_job_name :: "struct_time \<Rightarrow> string" where
  "tuning_job_name gmtime = ''BYO-keras-tuningjob-'' @ strftime ''%d-%H-%M-%S'' gmtime"

section \<open>The tuning-job configuration\<close>

text \<open>
  The cell of \<^verbatim>\<open>version2_jason.ipynb\<close> that assigns \<^verbatim>\<open>tuning_job_config\<close>,
  with the pairs in the order the literal writes them.
\<close>

definition tuning_job_config :: pyval where
  "tuning_job_config = PDict
     [(''ParameterRanges'', PDict
         [(''CategoricalParameterRanges'', PList []),
          (''ContinuousParameterRanges'', PList
             [PDict [(''MaxValue'', PStr ''0.001''),
                    (''MinValue'', PStr ''0.0001''),
                    (''Name'', PStr ''learning_rate'')]]),
          (''IntegerParameterRanges'', PList [])]),
      (''ResourceLimits'', PDict
         [(''MaxNumberOfTrainingJobs'', PInt 9),
          (''MaxParallelTrainingJobs'', PInt 9)]),
      (''Strategy'', PStr ''Bayesian''),
      (''HyperParameterTuningJobObjective'', PDict
         [(''MetricName'', PStr ''loss''),
          (''Type'', PStr ''Minimize'')])]"

text \<open>
  The same cell in \<^verbatim>\<open>.ipynb_checkpoints/version2_jason-checkpoint.ipynb\<close>: it
  differs in \<^verbatim>\<open>MaxParallelTrainingJobs\<close> only.
\<close>

definition tuning_job_config_checkpoint :: pyval where
  "tuning_job_config_checkpoint = PDict
     [(''ParameterRanges'', PDict
         [(''CategoricalParameterRanges'', PList []),
          (''ContinuousParameterRanges'', PList
             [PDict [(''MaxValue'', PStr ''0.001''),
                    (''MinValue'', PStr ''0.0001''),
                    (''Name'', PStr ''learning_rate'')]]),
          (''IntegerParameterRanges'', PList [])]),
      (''ResourceLimits'', PDict
         [(''MaxNumberOfTrainingJobs'', PInt 9),
          (''MaxParallelTrainingJobs'', PInt 3)]),
      (''Strategy'', PStr ''Bayesian''),
      (''HyperParameterTuningJobObjective'', PDict
         [(''MetricName'', PStr ''loss''),
          (''Type'', PStr ''Minimize'')])]"

section \<open>The training-job definition\<close>

text \<open>
  The cell that assigns \<^verbatim>\<open>training_job_definition\<close> reads the globals
  \<^verbatim>\<open>image_name\<close>, \<^verbatim>\<open>channels\<close>, \<^verbatim>\<open>bucket\<close> and \<^verbatim>\<open>role\<close>;
  \<^verbatim>\<open>channels['train']\<close> and \<^verbatim>\<open>channels['test']\<close> raise where the key is missing.
  The two entries of \<^verbatim>\<open>InputDataConfig\<close> are the same literal but for the name and
  the location: \<open>input_channel\<close> is that literal. The values are those of
  \<^verbatim>\<open>version2_jason.ipynb\<close>; its checkpoint differs in the instance type and the
  volume size, which no property below reads.
\<close>

definition input_channel :: "string \<Rightarrow> pyval \<Rightarrow> pyval" where
  "input_channel name location = PDict
     [(''ChannelName'', PStr name),
      (''DataSource'', PDict
         [(''S3DataSource'', PDict
            [(''S3DataType'', PStr ''S3Prefix''),
             (''S3Uri'', location),
             (''S3DataDistributionType'', PStr ''FullyReplicated'')])]),
      (''CompressionType'', PStr ''None''),
      (''RecordWrapperType'', PStr ''None'')]"

definition training_job_definition :: "string \<Rightarrow> pyval \<Rightarrow> string \<Rightarrow> string \<Rightarrow> error + pyval" where
  "training_job_definition image_name channels bucket role =
     (case dict_get channels ''train'' of
        None \<Rightarrow> Inl (KeyError ''train'')
      | Some train \<Rightarrow>
          (case dict_get channels ''test'' of
             None \<Rightarrow> Inl (KeyError ''test'')
           | Some test \<Rightarrow> Inr (PDict
               [(''AlgorithmSpecification'', PDict
                   [(''MetricDefinitions'', PList
                       [PDict [(''Name'', PStr ''loss''),
                               (''Regex'', PStr (''loss: ([0-9'' @ [CHR 0x5C] @ ''.]+)''))]]),
                    (''TrainingImage'', PStr image_name),
                    (''TrainingInputMode'', PStr ''File'')]),
                (''InputDataConfig'', PList
                   [input_channel ''train'' train, input_channel ''test'' test]),
                (''OutputDataConfig'', PDict
                   [(''S3OutputPath'', PStr (''s3://'' @ bucket @ ''/'' @ prefix @ ''/output''))]),
                (''ResourceConfig'', PDict
                   [(''InstanceCount'', PInt 1),
                    (''InstanceType'', PStr ''ml.c5.xlarge''),
                    (''VolumeSizeInGB'', PInt 100)]),
                (''RoleArn'', PStr role),
                (''StaticHyperParameters'', PDict
                   [(''batch_size'', PStr ''32''),
                    (''data_augmentation'', PStr ''True''),
                    (''height_shift_range'', PStr ''0.1''),
                    (''width_shift_range'', PStr ''0.1''),
                    (''epochs'', PStr ''1'')]),
                (''StoppingCondition'', PDict
                   [(''MaxRuntimeInSeconds'', PInt 43200)])])))"

section \<open>Launching the tuning job\<close>

text \<open>
  The last code cell but one passes the three globals to the boto3 client as they are:
  the notebook looks into none of them. The client first prepares the request, and raises
  without sending anything where that fails; then it sends the request, again after every
  attempt that fails in a way it retries, until an attempt is answered or the retries are
  used up. Every attempt is a request to the service. The cell ends with the response of
  the service or with the exception the client raised.
\<close>

fun send_request ::
  "'x env \<Rightarrow> nat \<Rightarrow> nat \<Rightarrow> string \<Rightarrow> pyval \<Rightarrow> pyval \<Rightarrow> 'x world \<Rightarrow> (error + pyval) \<times> 'x world" where
  "send_request e 0 attempt name config defn w =
     (let w' = w\<lparr>requests := requests w @ [(name, config, defn)]\<rparr>
      in case tuning_service e attempt name config defn of
           Created response \<Rightarrow> (Inr response, w')
         | Refused err \<Rightarrow> (Inl err, w')
         | Retryable err \<Rightarrow> (Inl err, w'))"
| "send_request e (Suc retries) attempt name config defn w =
     (let w' = w\<lparr>requests := requests w @ [(name, config, defn)]\<rparr>
      in case tuning_service e attempt name config defn of
           Created response \<Rightarrow> (Inr response, w')
         | Refused err \<Rightarrow> (Inl err, w')
         | Retryable err \<Rightarrow> send_request e retries (Suc attempt) name config defn w')"

definition create_hyper_parameter_tuning_job ::
  "'x env \<Rightarrow> string \<Rightarrow> pyval \<Rightarrow> pyval \<Rightarrow> 'x world \<Rightarrow> (error + pyval) \<times> 'x world" where
  "create_hyper_parameter_tuning_job e name config defn w =
     (case prepare_request e name config defn of
        Some err \<Rightarrow> (Inl err, w)
      | None \<Rightarrow> send_request e (max_retries e) 0 name config defn w)"

section \<open>Reading the documents\<close>

text \<open>
  The names, limits and locations the two documents hold, as the tuning service reads them
  from the request.
\<close>

definition static_entries :: "pyval \<Rightarrow> (string \<times> pyval) list" where
  "static_entries defn =
     (case dict_get defn ''StaticHyperParameters'' of
        Some (PDict kvs) \<Rightarrow> kvs
      | _ \<Rightarrow> [])"

definition static_names :: "pyval \<Rightarrow> string list" where
  "static_names defn = map fst (static_entries defn)"

definition ranges_of :: "pyval \<Rightarrow> string \<Rightarrow> pyval list" where
  "ranges_of config kind =
     (case lookup_path config [''ParameterRanges'', kind] of
        None \<Rightarrow> []
      | Some rs \<Rightarrow> items rs)"

definition range_names :: "pyval \<Rightarrow> string list" where
  "range_names config =
     List.map_filter (\<lambda>r. case dict_get r ''Name'' of Some (PStr n) \<Rightarrow> Some n | _ \<Rightarrow> None)
       (ranges_of config ''CategoricalParameterRanges''
        @ ranges_of config ''ContinuousParameterRanges''
        @ ranges_of config ''IntegerParameterRanges'')"

definition resource_limits :: "pyval \<Rightarrow> (int \<times> int) option" where
  "resource_limits config =
     (case (lookup_path config [''ResourceLimits'', ''MaxNumberOfTrainingJobs''],
            lookup_path config [''ResourceLimits'', ''MaxParallelTrainingJobs'']) of
        (Some (PInt n_total), Some (PInt n_parallel)) \<Rightarrow> Some (n_total, n_parallel)
      | _ \<Rightarrow> None)"

text \<open>
  A bound is a string in the request. Read as an unsigned decimal it is a pair of the
  digits as a number and the count of digits after the point: \<^verbatim>\<open>0.0001\<close> is
  \<open>(1, 4)\<close>.
\<close>

definition digit_val :: "char \<Rightarrow> nat option" where
  "digit_val c =
     (let n = (of_char c :: nat) in if 48 \<le> n \<and> n \<le> 57 then Some (n - 48) else None)"

fun digits_val :: "string \<Rightarrow> nat \<Rightarrow> nat option" where
  "digits_val [] acc = Some acc"
| "digits_val (c # cs) acc =
     (case digit_val c of None \<Rightarrow> None | Some d \<Rightarrow> digits_val cs (10 * acc + d))"

definition parse_decimal :: "string \<Rightarrow> (nat \<times> nat) option" where
  "parse_decimal s =
     (let ip = takeWhile (\<lambda>c. c \<noteq> CHR ''.'') s;
          fp = drop (Suc (length ip)) s
      in if ip @ fp = [] then None
         else map_option (\<lambda>m. (m, length fp)) (digits_val (ip @ fp) 0))"

definition decimal_less :: "nat \<times> nat \<Rightarrow> nat \<times> nat \<Rightarrow> bool" where
  "decimal_less a b \<longleftrightarrow> fst a * 10 ^ snd b < fst b * 10 ^ snd a"

definition bounds_of :: "pyval \<Rightarrow> (string \<times> string) option" where
  "bounds_of r =
     (case (dict_get r ''MinValue'', dict_get r ''MaxValue'') of
        (Some (PStr lo), Some (PStr hi)) \<Rightarrow> Some (lo, hi)
      | _ \<Rightarrow> None)"

definition bounds_ordered :: "pyval \<Rightarrow> bool" where
  "bounds_ordered r =
     (case bounds_of r of
        None \<Rightarrow> False
      | Some (lo, hi) \<Rightarrow>
          (case (parse_decimal lo, parse_decimal hi) of
             (Some a, Some b) \<Rightarrow> decimal_less a b
           | _ \<Rightarrow> False))"

definition channel_names :: "pyval \<Rightarrow> pyval list" where
  "channel_names defn =
     (case dict_get defn ''InputDataConfig'' of
        None \<Rightarrow> []
      | Some chs \<Rightarrow> List.map_filter (\<lambda>ch. dict_get ch ''ChannelName'') (items chs))"

definition input_location :: "pyval \<Rightarrow> string \<Rightarrow> pyval option" where
  "input_location defn name =
     (case dict_get defn ''InputDataConfig'' of
        None \<Rightarrow> None
      | Some chs \<Rightarrow>
          (case filter (\<lambda>ch. dict_get ch ''ChannelName'' = Some (PStr name)) (items chs) of
             [] \<Rightarrow> None
           | ch # _ \<Rightarrow> lookup_path ch [''DataSource'', ''S3DataSource'', ''S3Uri'']))"

section \<open>Python's \<^verbatim>\<open>str\<close>\<close>

text \<open>
  The rendering \<^verbatim>\<open>str\<close> gives of a string, an integer, a boolean and a float. A float
  is written in positional notation with at least one digit after the point and no
  trailing zero, which is what Python prints for the short decimal fractions between
  \<^verbatim>\<open>1e-4\<close> and \<^verbatim>\<open>1e16\<close> that the notebook uses. Lists and dicts are not
  rendered.
\<close>

fun str_nat :: "nat \<Rightarrow> string" where
  "str_nat n = (if n < 10 then [digit_char n] else str_nat (n div 10) @ [digit_char (n mod 10)])"

declare str_nat.simps [simp del]

definition str_int :: "int \<Rightarrow> string" where
  "str_int i = (if i < 0 then ''-'' @ str_nat (nat (- i)) else str_nat (nat i))"

definition strip_zeros :: "string \<Rightarrow> string" where
  "strip_zeros ds = rev (dropWhile (\<lambda>c. c = CHR ''0'') (rev ds))"

definition str_float :: "int \<Rightarrow> nat \<Rightarrow> string" where
  "str_float m k =
     (let a = nat \<bar>m\<bar>;
          whole = str_nat (a div 10 ^ k);
          frac = str_nat (a mod 10 ^ k);
          padded = replicate (k - length frac) (CHR ''0'') @ frac;
          shown = (if k = 0 \<or> strip_zeros padded = [] then ''0'' else strip_zeros padded)
      in (if m < 0 then ''-'' else []) @ whole @ ''.'' @ shown)"

fun str :: "pyval \<Rightarrow> string option" where
  "str (PStr s) = Some s"
| "str (PInt i) = Some (str_int i)"
| "str (PBool b) = Some (if b then ''True'' else ''False'')"
| "str (PFloat m k) = Some (str_float m k)"
| "str _ = None"

fun is_str :: "pyval \<Rightarrow> bool" where
  "is_str (PStr s) = True"
| "is_str _ = False"

section \<open>Failing before the request\<close>

text \<open>
  A cell fails locally when it ends with an exception and has sent no request to the
  tuning service.
\<close>

definition fails_locally :: "(error + 'a) \<times> 'x world \<Rightarrow> 'x world \<Rightarrow> bool" where
  "fails_locally r w \<longleftrightarrow> isl (fst r) \<and> requests (snd r) = requests w"

section \<open>The client's validation of the arguments\<close>

text \<open>
  The validation botocore runs on the arguments of a call, for the environment of the run
  below. A shape of the service model gives the type of a value and, for a string, an
  integer and a list, the least length or value; a structure lists its members, each
  required or not, admits no other member, and checks every member that is there. The
  three shapes are those of \<^verbatim>\<open>CreateHyperParameterTuningJob\<close> in the SageMaker model,
  with the members the notebook's documents have. The validation reads one value at a
  time: it compares no two of them.
\<close>

datatype shape =
    String_shape nat
  | Integer_shape int
  | List_shape nat shape
  | Map_shape shape
  | Structure_shape "(string \<times> bool \<times> shape) list"

fun conforms :: "shape \<Rightarrow> pyval \<Rightarrow> bool" where
  "conforms (String_shape least) v = (case v of PStr s \<Rightarrow> least \<le> length s | _ \<Rightarrow> False)"
| "conforms (Integer_shape least) v = (case v of PInt i \<Rightarrow> least \<le> i | _ \<Rightarrow> False)"
| "conforms (List_shape least member) v =
     (case v of
        PList vs \<Rightarrow> least \<le> length vs \<and> list_all (conforms member) vs
      | _ \<Rightarrow> False)"
| "conforms (Map_shape member) v =
     (case v of PDict kvs \<Rightarrow> list_all (\<lambda>kv. conforms member (snd kv)) kvs | _ \<Rightarrow> False)"
| "conforms (Structure_shape members) v =
     (case v of
        PDict kvs \<Rightarrow>
          list_all (\<lambda>kv. fst kv \<in> set (map fst members)) kvs
          \<and> list_all (\<lambda>m. case map_of (rev kvs) (fst m) of
                              None \<Rightarrow> \<not> fst (snd m)
                            | Some x \<Rightarrow> conforms (snd (snd m)) x) members
      | _ \<Rightarrow> False)"

definition range_shape :: shape where
  "range_shape = Structure_shape
     [(''Name'', True, String_shape 0),
      (''MinValue'', True, String_shape 0),
      (''MaxValue'', True, String_shape 0)]"

definition config_shape :: shape where
  "config_shape = Structure_shape
     [(''Strategy'', True, String_shape 0),
      (''HyperParameterTuningJobObjective'', True, Structure_shape
         [(''Type'', True, String_shape 0),
          (''MetricName'', True, String_shape 1)]),
      (''ResourceLimits'', True, Structure_shape
         [(''MaxNumberOfTrainingJobs'', True, Integer_shape 1),
          (''MaxParallelTrainingJobs'', True, Integer_shape 1)]),
      (''ParameterRanges'', True, Structure_shape
         [(''IntegerParameterRanges'', False, List_shape 0 range_shape),
          (''ContinuousParameterRanges'', False, List_shape 0 range_shape),
          (''CategoricalParameterRanges'', False, List_shape 0 (Structure_shape
             [(''Name'', True, String_shape 0),
              (''Values'', True, List_shape 1 (String_shape 0))]))])]"

definition definition_shape :: shape where
  "definition_shape = Structure_shape
     [(''StaticHyperParameters'', False, Map_shape (String_shape 0)),
      (''AlgorithmSpecification'', True, Structure_shape
         [(''TrainingImage'', False, String_shape 0),
          (''TrainingInputMode'', True, String_shape 0),
          (''MetricDefinitions'', False, List_shape 0 (Structure_shape
             [(''Name'', True, String_shape 1),
              (''Regex'', True, String_shape 1)]))]),
      (''RoleArn'', True, String_shape 20),
      (''InputDataConfig'', False, List_shape 1 (Structure_shape
         [(''ChannelName'', True, String_shape 1),
          (''DataSource'', True, Structure_shape
             [(''S3DataSource'', False, Structure_shape
                [(''S3DataType'', True, String_shape 0),
                 (''S3Uri'', True, String_shape 0),
                 (''S3DataDistributionType'', False, String_shape 0)])]),
          (''CompressionType'', False, String_shape 0),
          (''RecordWrapperType'', False, String_shape 0)])),
      (''OutputDataConfig'', True, Structure_shape
         [(''S3OutputPath'', True, String_shape 0)]),
      (''ResourceConfig'', True, Structure_shape
         [(''InstanceType'', True, String_shape 0),
          (''InstanceCount'', True, Integer_shape 1),
          (''VolumeSizeInGB'', True, Integer_shape 1)]),
      (''StoppingCondition'', True, Structure_shape
         [(''MaxRuntimeInSeconds'', False, Integer_shape 1)])]"

definition validate_parameters :: "string \<Rightarrow> pyval \<Rightarrow> pyval \<Rightarrow> error option" where
  "validate_parameters name config defn =
     (if conforms (String_shape 1) (PStr name) \<and> conforms config_shape config
         \<and> conforms definition_shape defn
      then None else Some ParamValidationError)"

section \<open>One run, and three edits of the configuration\<close>

text \<open>
  An environment in which every call succeeds except a build for the version
  \<^verbatim>\<open>none\<close> and a launch with arguments the client's validation rejects, the world
  before the first cell, and the values of one run of the notebook. They give the
  functions above concrete inputs; the image array of a split stands as its number of
  images.
\<close>

fun split_spaces :: "string \<Rightarrow> string \<Rightarrow> string list" where
  "split_spaces [] acc = (if acc = [] then [] else [acc])"
| "split_spaces (c # cs) acc =
     (if c = CHR '' '' then (if acc = [] then split_spaces cs [] else acc # split_spaces cs [])
      else split_spaces cs (acc @ [c]))"

definition run_env :: "nat env" where
  "run_env = \<lparr>
     shlex_split = (\<lambda>s. Some (split_spaces s [])),
     exit_status = (\<lambda>argv. Some (if ''VERSION=none'' \<in> set argv then 1 else 0)),
     load_data = ((50000, [6, 9, 9, 4]), (10000, [3, 8])),
     mkdtemp = (\<lambda>n. ''/tmp/tmp'' @ str_nat n),
     upload_data = (\<lambda>path bucket key_prefix. Some (''s3://'' @ bucket @ ''/'' @ key_prefix)),
     prepare_request = validate_parameters,
     tuning_service = (\<lambda>attempt name config defn.
        Created (PDict [(''HyperParameterTuningJobArn'', PStr (''arn:'' @ name))])),
     max_retries = 4\<rparr>"

definition run_start :: "nat world" where
  "run_start = \<lparr>invocations = [], tempdirs = 0, files = [], uploads = [], requests = []\<rparr>"

definition run_channels :: pyval where
  "run_channels = PDict
     [(''train'', PStr ''s3://bucket/data/DEMO-keras-cifar10/train''),
      (''test'', PStr ''s3://bucket/data/DEMO-keras-cifar10/test'')]"

definition run_definition :: pyval where
  "run_definition =
     (case training_job_definition ''repo:tensorflow-1.10.1'' run_channels ''bucket'' ''role'' of
        Inl err \<Rightarrow> PDict []
      | Inr defn \<Rightarrow> defn)"

definition run_time :: struct_time where
  "run_time = \<lparr>tm_year = 2019, tm_mon = 8, tm_mday = 28, tm_hour = 18, tm_min = 37, tm_sec = 26\<rparr>"

text \<open>
  The documents of the run the notebook's outputs record: the image name and the bucket
  are those it printed, for the account 023375022819 in us-east-1, and the role is an
  execution role of that account.
\<close>

definition recorded_image :: string where
  "recorded_image = ''023375022819.dkr.ecr.us-east-1.amazonaws.com/test:tensorflow-1.10.1''"

definition recorded_bucket :: string where
  "recorded_bucket = ''sagemaker-us-east-1-023375022819''"

definition recorded_role :: string where
  "recorded_role = ''arn:aws:iam::023375022819:role/service-role/AmazonSageMaker-ExecutionRole''"

definition recorded_name :: string where
  "recorded_name = ''BYO-keras-tuningjob-28-18-37-26''"

definition recorded_channels :: pyval where
  "recorded_channels = PDict
     [(''train'', PStr ''s3://sagemaker-us-east-1-023375022819/data/DEMO-keras-cifar10/train''),
      (''test'', PStr ''s3://sagemaker-us-east-1-023375022819/data/DEMO-keras-cifar10/test'')]"

definition recorded_definition :: pyval where
  "recorded_definition =
     (case training_job_definition recorded_image recorded_channels recorded_bucket
             recorded_role of
        Inl err \<Rightarrow> PDict []
      | Inr defn \<Rightarrow> defn)"

text \<open>
  The configuration cell edited so that it also searches \<^verbatim>\<open>batch_size\<close>, which the
  training-job definition fixes.
\<close>

definition colliding_config :: pyval where
  "colliding_config = PDict
     [(''ParameterRanges'', PDict
         [(''CategoricalParameterRanges'', PList []),
          (''ContinuousParameterRanges'', PList
             [PDict [(''MaxValue'', PStr ''0.001''),
                    (''MinValue'', PStr ''0.0001''),
                    (''Name'', PStr ''learning_rate'')]]),
          (''IntegerParameterRanges'', PList
             [PDict [(''MaxValue'', PStr ''64''),
                    (''MinValue'', PStr ''16''),
                    (''Name'', PStr ''batch_size'')]])]),
      (''ResourceLimits'', PDict
         [(''MaxNumberOfTrainingJobs'', PInt 9),
          (''MaxParallelTrainingJobs'', PInt 9)]),
      (''Strategy'', PStr ''Bayesian''),
      (''HyperParameterTuningJobObjective'', PDict
         [(''MetricName'', PStr ''loss''),
          (''Type'', PStr ''Minimize'')])]"

text \<open>The configuration cell edited to allow 10 parallel jobs out of 9.\<close>

definition overcommitted_config :: pyval where
  "overcommitted_config = PDict
     [(''ParameterRanges'', PDict
         [(''CategoricalParameterRanges'', PList []),
          (''ContinuousParameterRanges'', PList
             [PDict [(''MaxValue'', PStr ''0.001''),
                    (''MinValue'', PStr ''0.0001''),
                    (''Name'', PStr ''learning_rate'')]]),
          (''IntegerParameterRanges'', PList [])]),
      (''ResourceLimits'', PDict
         [(''MaxNumberOfTrainingJobs'', PInt 9),
          (''MaxParallelTrainingJobs'', PInt 10)]),
      (''Strategy'', PStr ''Bayesian''),
      (''HyperParameterTuningJobObjective'', PDict
         [(''MetricName'', PStr ''loss''),
          (''Type'', PStr ''Minimize'')])]"

text \<open>The configuration cell edited so that the two bounds are swapped.\<close>

definition inverted_config :: pyval where
  "inverted_config = PDict
     [(''ParameterRanges'', PDict
         [(''CategoricalParameterRanges'', PList []),
          (''ContinuousParameterRanges'', PList
             [PDict [(''MaxValue'', PStr ''0.0001''),
                    (''MinValue'', PStr ''0.001''),
                    (''Name'', PStr ''learning_rate'')]]),
          (''IntegerParameterRanges'', PList [])]),
      (''ResourceLimits'', PDict
         [(''MaxNumberOfTrainingJobs'', PInt 9),
          (''MaxParallelTrainingJobs'', PInt 9)]),
      (''Strategy'', PStr ''Bayesian''),
      (''HyperParameterTuningJobObjective'', PDict
         [(''MetricName'', PStr ''loss''),
          (''Type'', PStr ''Minimize'')])]"

section \<open>Theorems\<close>

text \<open>
  C4. The configuration the notebook assembles (9 training jobs in total, 9 in parallel,
  strategy Bayesian, objective minimising the metric loss) has a parameter-range section
  with exactly one continuous entry, named learning_rate, whose bounds are the strings
  0.0001 and 0.001, and with empty categorical and integer lists.
\<close>

theorem tuning_job_config_ranges:
  "lookup_path tuning_job_config [''ResourceLimits'', ''MaxNumberOfTrainingJobs''] = Some (PInt 9)
   \<and> lookup_path tuning_job_config [''ResourceLimits'', ''MaxParallelTrainingJobs''] = Some (PInt 9)
   \<and> lookup_path tuning_job_config [''Strategy''] = Some (PStr ''Bayesian'')
   \<and> lookup_path tuning_job_config [''HyperParameterTuningJobObjective'', ''MetricName'']
       = Some (PStr ''loss'')
   \<and> lookup_path tuning_job_config [''HyperParameterTuningJobObjective'', ''Type'']
       = Some (PStr ''Minimize'')
   \<and> dict_get tuning_job_config ''ParameterRanges'' = Some (PDict
         [(''CategoricalParameterRanges'', PList []),
          (''ContinuousParameterRanges'', PList
             [PDict [(''MaxValue'', PStr ''0.001''),
                    (''MinValue'', PStr ''0.0001''),
                    (''Name'', PStr ''learning_rate'')]]),
          (''IntegerParameterRanges'', PList [])])"
  by (simp add: tuning_job_config_def)

text \<open>
  C8. For every image name and version, when the build command exits with a non-zero
  status, \<^verbatim>\<open>build_image\<close> ends with a \<^verbatim>\<open>CalledProcessError\<close> that carries that
  status; when it exits with zero, \<^verbatim>\<open>build_image\<close> returns normally. In both cases the
  command was run exactly once: there is no retry.
\<close>

theorem build_image_exit_status:
  assumes "shlex_split e (''docker build -t '' @ name @ '' --build-arg VERSION='' @ version
             @ '' -f Dockerfile .'') = Some argv"
      and "exit_status e argv = Some retcode"
  shows "(retcode \<noteq> 0 \<longrightarrow> fst (build_image e name version w) = Inl (CalledProcessError retcode argv))
       \<and> (retcode = 0 \<longrightarrow> fst (build_image e name version w) = Inr ())
       \<and> invocations (snd (build_image e name version w)) = invocations w @ [argv]"
  using assms by (simp add: build_image_def check_call_def Let_def)

theorem build_image_exit_status_witness:
  "fst (build_image run_env ''repo:tensorflow-none'' ''none'' run_start)
     = Inl (CalledProcessError 1 [''docker'', ''build'', ''-t'', ''repo:tensorflow-none'',
         ''--build-arg'', ''VERSION=none'', ''-f'', ''Dockerfile'', ''.''])
   \<and> fst (build_image run_env ''repo:tensorflow-1.10.1'' ''1.10.1'' run_start) = Inr ()
   \<and> invocations (snd (build_image run_env ''repo:tensorflow-1.10.1'' ''1.10.1'' run_start))
     = [[''docker'', ''build'', ''-t'', ''repo:tensorflow-1.10.1'',
         ''--build-arg'', ''VERSION=1.10.1'', ''-f'', ''Dockerfile'', ''.'']]"
proof -
  let ?bad = "[''docker'', ''build'', ''-t'', ''repo:tensorflow-none'',
         ''--build-arg'', ''VERSION=none'', ''-f'', ''Dockerfile'', ''.'']"
  let ?good = "[''docker'', ''build'', ''-t'', ''repo:tensorflow-1.10.1'',
         ''--build-arg'', ''VERSION=1.10.1'', ''-f'', ''Dockerfile'', ''.'']"
  have s1: "shlex_split run_env (''docker build -t '' @ ''repo:tensorflow-none''
        @ '' --build-arg VERSION='' @ ''none'' @ '' -f Dockerfile .'') = Some ?bad"
    by (simp add: run_env_def)
  have x1: "exit_status run_env ?bad = Some 1"
    by (simp add: run_env_def)
  have s2: "shlex_split run_env (''docker build -t '' @ ''repo:tensorflow-1.10.1''
        @ '' --build-arg VERSION='' @ ''1.10.1'' @ '' -f Dockerfile .'') = Some ?good"
    by (simp add: run_env_def)
  have x2: "exit_status run_env ?good = Some 0"
    by (simp add: run_env_def)
  show ?thesis
    using build_image_exit_status [OF s1 x1, of run_start]
          build_image_exit_status [OF s2 x2, of run_start]
    by (simp add: run_start_def)
qed

lemma digit_char_inject:
  assumes "a < 10" and "b < 10" and "digit_char a = digit_char b"
  shows "a = b"
proof -
  from assms(3) have "(of_char (char_of (48 + a)) :: nat) = of_char (char_of (48 + b))"
    by (simp add: digit_char_def)
  then have "(48 + a) mod 256 = (48 + b) mod 256"
    by simp
  with assms(1,2) show ?thesis
    by simp
qed

lemma two_digits_inject:
  assumes "n < 100" and "m < 100" and "two_digits n = two_digits m"
  shows "n = m"
proof -
  from assms(3) have hi: "digit_char (n div 10 mod 10) = digit_char (m div 10 mod 10)"
    and lo: "digit_char (n mod 10) = digit_char (m mod 10)"
    by (simp_all add: two_digits_def)
  have h: "n div 10 mod 10 = m div 10 mod 10"
    by (rule digit_char_inject [OF _ _ hi]) simp_all
  have l: "n mod 10 = m mod 10"
    by (rule digit_char_inject [OF _ _ lo]) simp_all
  from assms(1,2) have "n div 10 < 10" and "m div 10 < 10"
    by (simp_all add: div_less_iff_less_mult)
  with h have "n div 10 = m div 10"
    by simp
  then have "10 * (n div 10) + n mod 10 = 10 * (m div 10) + m mod 10"
    using l by simp
  then show ?thesis
    by (simp only: mult_div_mod_eq)
qed

lemma strftime_dHMS:
  "strftime ''%d-%H-%M-%S'' t =
     two_digits (tm_mday t) @ ''-'' @ two_digits (tm_hour t) @ ''-''
       @ two_digits (tm_min t) @ ''-'' @ two_digits (tm_sec t)"
  by simp

lemma stamp_eq_iff:
  "(two_digits a @ ''-'' @ two_digits b @ ''-'' @ two_digits c @ ''-'' @ two_digits d
      = two_digits a' @ ''-'' @ two_digits b' @ ''-'' @ two_digits c' @ ''-'' @ two_digits d')
   \<longleftrightarrow> two_digits a = two_digits a' \<and> two_digits b = two_digits b'
       \<and> two_digits c = two_digits c' \<and> two_digits d = two_digits d'"
  by (simp add: two_digits_def)

text \<open>
  C9. The default name of the tuning job is the fixed prefix
  \<^verbatim>\<open>BYO-keras-tuningjob-\<close> followed by the day of the month, the hour, the minute and
  the second of the creation time, two digits each. Two creation times give the same name
  exactly when they agree on these four fields, so that times with different stamps get
  different names; the name is not unique, since the stamp leaves out the year and the
  month: the 28th of August and the 28th of September 2019, at 18:37:26, share one name.
\<close>

theorem tuning_job_name_stamp:
  "tuning_job_name t = ''BYO-keras-tuningjob-'' @ two_digits (tm_mday t) @ ''-''
       @ two_digits (tm_hour t) @ ''-'' @ two_digits (tm_min t) @ ''-'' @ two_digits (tm_sec t)
   \<and> (valid_time t \<and> valid_time t' \<longrightarrow>
        (tuning_job_name t = tuning_job_name t' \<longleftrightarrow>
           tm_mday t = tm_mday t' \<and> tm_hour t = tm_hour t'
           \<and> tm_min t = tm_min t' \<and> tm_sec t = tm_sec t'))
   \<and> valid_time run_time \<and> valid_time (run_time\<lparr>tm_mon := 9\<rparr>)
   \<and> run_time \<noteq> run_time\<lparr>tm_mon := 9\<rparr>
   \<and> tuning_job_name run_time = tuning_job_name (run_time\<lparr>tm_mon := 9\<rparr>)"
proof (intro conjI impI)
  show "tuning_job_name t = ''BYO-keras-tuningjob-'' @ two_digits (tm_mday t) @ ''-''
       @ two_digits (tm_hour t) @ ''-'' @ two_digits (tm_min t) @ ''-'' @ two_digits (tm_sec t)"
    unfolding tuning_job_name_def strftime_dHMS by simp
next
  assume v: "valid_time t \<and> valid_time t'"
  then have b: "tm_mday t < 100" "tm_mday t' < 100" "tm_hour t < 100" "tm_hour t' < 100"
    "tm_min t < 100" "tm_min t' < 100" "tm_sec t < 100" "tm_sec t' < 100"
    by (simp_all add: valid_time_def)
  have "tuning_job_name t = tuning_job_name t' \<longleftrightarrow>
      two_digits (tm_mday t) = two_digits (tm_mday t')
      \<and> two_digits (tm_hour t) = two_digits (tm_hour t')
      \<and> two_digits (tm_min t) = two_digits (tm_min t')
      \<and> two_digits (tm_sec t) = two_digits (tm_sec t')"
    unfolding tuning_job_name_def strftime_dHMS same_append_eq by (rule stamp_eq_iff)
  also have "\<dots> \<longleftrightarrow> tm_mday t = tm_mday t' \<and> tm_hour t = tm_hour t'
           \<and> tm_min t = tm_min t' \<and> tm_sec t = tm_sec t'"
    using b by (auto dest: two_digits_inject)
  finally show "tuning_job_name t = tuning_job_name t' \<longleftrightarrow>
           tm_mday t = tm_mday t' \<and> tm_hour t = tm_hour t'
           \<and> tm_min t = tm_min t' \<and> tm_sec t = tm_sec t'" .
next
  show "valid_time run_time" by (simp add: valid_time_def run_time_def)
next
  show "valid_time (run_time\<lparr>tm_mon := 9\<rparr>)" by (simp add: valid_time_def run_time_def)
next
  show "run_time \<noteq> run_time\<lparr>tm_mon := 9\<rparr>" by (simp add: run_time_def)
next
  show "tuning_job_name run_time = tuning_job_name (run_time\<lparr>tm_mon := 9\<rparr>)"
    unfolding tuning_job_name_def strftime_dHMS by simp
qed

theorem tuning_job_name_stamp_witness:
  "tuning_job_name run_time = ''BYO-keras-tuningjob-28-18-37-26''
   \<and> tuning_job_name (run_time\<lparr>tm_sec := 27\<rparr>) \<noteq> tuning_job_name run_time
   \<and> tuning_job_name (run_time\<lparr>tm_mon := 9\<rparr>) = tuning_job_name run_time"
proof -
  have v: "valid_time (run_time\<lparr>tm_sec := 27\<rparr>) \<and> valid_time run_time"
    by (simp add: valid_time_def run_time_def)
  have d28: "two_digits 28 = ''28''" by code_simp
  have d18: "two_digits 18 = ''18''" by code_simp
  have d37: "two_digits 37 = ''37''" by code_simp
  have d26: "two_digits 26 = ''26''" by code_simp
  note d = d28 d18 d37 d26
  have n: "tuning_job_name run_time = ''BYO-keras-tuningjob-28-18-37-26''"
    using conjunct1 [OF tuning_job_name_stamp [of run_time run_time]]
    by (simp add: run_time_def d)
  note differ = conjunct1 [OF conjunct2
      [OF tuning_job_name_stamp [of "run_time\<lparr>tm_sec := 27\<rparr>" run_time]]]
  from differ v
  have "tuning_job_name (run_time\<lparr>tm_sec := 27\<rparr>) \<noteq> tuning_job_name run_time"
    by (simp add: run_time_def)
  moreover have "tuning_job_name (run_time\<lparr>tm_mon := 9\<rparr>) = tuning_job_name run_time"
    using conjunct2 [OF conjunct2 [OF tuning_job_name_stamp [of run_time run_time]]] by simp
  ultimately show ?thesis using n by simp
qed

lemma to_categorical_ok:
  assumes "list_all (\<lambda>l. l < n) y"
  shows "to_categorical y n = Inr (map (\<lambda>l. map (\<lambda>i. if i = l then 1 else 0) [0..<n]) y)"
proof -
  from assms have "\<not> list_ex (\<lambda>l. n \<le> l) y"
    by (auto simp: list_all_iff list_ex_iff)
  then show ?thesis
    by (simp add: to_categorical_def)
qed

lemma to_categorical_fails:
  assumes "list_ex (\<lambda>l. n \<le> l) y"
  shows "to_categorical y n = Inl IndexError"
  using assms by (simp add: to_categorical_def)

lemma upload_channel_ok:
  assumes "list_all (\<lambda>l. l < NUM_CLASSES) y"
  shows "snd (upload_channel e bucket channel_name x y w) =
     w\<lparr>tempdirs := Suc (tempdirs w),
        files := files w @ [(os_path_join (mkdtemp e (tempdirs w)) ''cifar-10-npz-compressed.npz'',
           x, map (\<lambda>l. map (\<lambda>i. if i = l then 1 else 0) [0..<NUM_CLASSES]) y)],
        uploads := uploads w @ [(mkdtemp e (tempdirs w), bucket,
           ''data/DEMO-keras-cifar10/'' @ channel_name)]\<rparr>"
    and "fst (upload_channel e bucket channel_name x y w) =
      (case upload_data e (mkdtemp e (tempdirs w)) bucket
              (''data/DEMO-keras-cifar10/'' @ channel_name) of
         None \<Rightarrow> Inl UploadError | Some location \<Rightarrow> Inr location)"
  by (simp_all add: upload_channel_def to_categorical_ok [OF assms] Let_def split: option.split)

text \<open>
  C6. For every split, \<^verbatim>\<open>upload_channel\<close> encodes the labels with the declared class
  count \<^verbatim>\<open>NUM_CLASSES\<close>: where every label is below the count, the archive it writes
  holds one row for each label, each row of width exactly \<^verbatim>\<open>NUM_CLASSES\<close> with a
  single 1, at the label's index; where some label is greater than or equal to the count,
  packaging fails, and nothing is written or uploaded.
\<close>

theorem upload_channel_one_hot:
  "(list_all (\<lambda>l. l < NUM_CLASSES) y \<longrightarrow>
      (\<exists>path rows. files (snd (upload_channel e bucket channel_name x y w))
                      = files w @ [(path, x, rows)]
         \<and> length rows = length y
         \<and> list_all (\<lambda>row. length row = NUM_CLASSES) rows
         \<and> (\<forall>j < length y. \<forall>i < NUM_CLASSES.
               rows ! j ! i = (if i = y ! j then 1 else 0))))
   \<and> (list_ex (\<lambda>l. NUM_CLASSES \<le> l) y \<longrightarrow>
        upload_channel e bucket channel_name x y w = (Inl IndexError, w))"
proof (intro conjI impI)
  assume ok: "list_all (\<lambda>l. l < NUM_CLASSES) y"
  let ?rows = "map (\<lambda>l. map (\<lambda>i. if i = l then 1 else 0) [0..<NUM_CLASSES]) y"
  have "files (snd (upload_channel e bucket channel_name x y w))
      = files w @ [(os_path_join (mkdtemp e (tempdirs w)) ''cifar-10-npz-compressed.npz'',
                    x, ?rows)]"
    by (simp add: upload_channel_ok(1) [OF ok])
  moreover have "length ?rows = length y"
    by simp
  moreover have "list_all (\<lambda>row. length row = NUM_CLASSES) ?rows"
    by (simp add: list_all_iff)
  moreover have "\<forall>j < length y. \<forall>i < NUM_CLASSES. ?rows ! j ! i = (if i = y ! j then 1 else 0)"
    by simp
  ultimately show "\<exists>path rows. files (snd (upload_channel e bucket channel_name x y w))
                      = files w @ [(path, x, rows)]
         \<and> length rows = length y
         \<and> list_all (\<lambda>row. length row = NUM_CLASSES) rows
         \<and> (\<forall>j < length y. \<forall>i < NUM_CLASSES.
               rows ! j ! i = (if i = y ! j then 1 else 0))"
    by blast
next
  assume "list_ex (\<lambda>l. NUM_CLASSES \<le> l) y"
  then show "upload_channel e bucket channel_name x y w = (Inl IndexError, w)"
    by (simp add: upload_channel_def to_categorical_fails)
qed

theorem upload_channel_one_hot_witness:
  "files (snd (upload_channel run_env ''bucket'' ''test'' 10000 [3, 8] run_start))
     = [(''/tmp/tmp0/cifar-10-npz-compressed.npz'', 10000,
         [[0, 0, 0, 1, 0, 0, 0, 0, 0, 0], [0, 0, 0, 0, 0, 0, 0, 0, 1, 0]])]
   \<and> upload_channel run_env ''bucket'' ''test'' 10000 [3, 10] run_start
     = (Inl IndexError, run_start)"
proof -
  have ok: "list_all (\<lambda>l. l < NUM_CLASSES) [3, 8]"
    by (simp add: NUM_CLASSES_def)
  have bad: "list_ex (\<lambda>l. NUM_CLASSES \<le> l) [3, 10]"
    by (simp add: NUM_CLASSES_def)
  note good_split =
    upload_channel_one_hot [of "[3, 8]" run_env "''bucket''" "''test''" 10000 run_start]
  note bad_split =
    upload_channel_one_hot [of "[3, 10]" run_env "''bucket''" "''test''" 10000 run_start]
  from conjunct1 [OF good_split] ok
  have "\<exists>path rows. files (snd (upload_channel run_env ''bucket'' ''test'' 10000 [3, 8] run_start))
            = files run_start @ [(path, 10000, rows)]
          \<and> length rows = length [3::nat, 8]
          \<and> list_all (\<lambda>row. length row = NUM_CLASSES) rows
          \<and> (\<forall>j < length [3::nat, 8]. \<forall>i < NUM_CLASSES.
                 rows ! j ! i = (if i = [3, 8] ! j then 1 else 0))"
    by (rule mp)
  have enc: "to_categorical [3, 8] NUM_CLASSES
      = Inr [[0, 0, 0, 1, 0, 0, 0, 0, 0, 0], [0, 0, 0, 0, 0, 0, 0, 0, 1, 0]]"
    by code_simp
  have dir: "str_nat 0 = ''0''"
    by code_simp
  have "files (snd (upload_channel run_env ''bucket'' ''test'' 10000 [3, 8] run_start))
     = [(''/tmp/tmp0/cifar-10-npz-compressed.npz'', 10000,
         [[0, 0, 0, 1, 0, 0, 0, 0, 0, 0], [0, 0, 0, 0, 0, 0, 0, 0, 1, 0]])]"
    by (simp add: upload_channel_def enc dir run_env_def run_start_def os_path_join_def Let_def)
  moreover from conjunct2 [OF bad_split] bad
  have "upload_channel run_env ''bucket'' ''test'' 10000 [3, 10] run_start
     = (Inl IndexError, run_start)"
    by (rule mp)
  ultimately show ?thesis
    by (rule conjI)
qed




lemma training_job_definition_channels:
  "training_job_definition image_name
      (PDict [(''train'', train), (''test'', test)]) bucket role = Inr defn
   \<Longrightarrow> channel_names defn = [PStr ''train'', PStr ''test'']
       \<and> input_location defn ''train'' = Some train
       \<and> input_location defn ''test'' = Some test"
  by (auto simp: training_job_definition_def channel_names_def input_location_def
      input_channel_def List.map_filter_def)

lemma training_job_definition_total:
  "\<exists>defn. training_job_definition image_name
      (PDict [(''train'', train), (''test'', test)]) bucket role = Inr defn"
  by (simp add: training_job_definition_def)

lemma upload_training_data_steps:
  assumes "upload_training_data e bucket w = (Inr channels, w')"
  shows "\<exists>train_location test_location w1.
      upload_channel e bucket ''train'' (fst (fst (load_data e))) (snd (fst (load_data e))) w
        = (Inr train_location, w1)
    \<and> upload_channel e bucket ''test'' (fst (snd (load_data e))) (snd (snd (load_data e))) w1
        = (Inr test_location, w')
    \<and> channels = PDict [(''train'', PStr train_location), (''test'', PStr test_location)]"
proof -
  obtain x_train y_train x_test y_test
    where ld: "load_data e = ((x_train, y_train), (x_test, y_test))"
    by (metis prod.exhaust)
  obtain r1 w1 where u1: "upload_channel e bucket ''train'' x_train y_train w = (r1, w1)"
    by (metis prod.exhaust)
  obtain r2 w2 where u2: "upload_channel e bucket ''test'' x_test y_test w1 = (r2, w2)"
    by (metis prod.exhaust)
  from assms ld u1 obtain l1 where r1: "r1 = Inr l1"
    by (cases r1) (simp_all add: upload_training_data_def)
  from assms ld u1 u2 r1 obtain l2 where r2: "r2 = Inr l2"
    by (cases r2) (simp_all add: upload_training_data_def)
  from assms ld u1 u2 r1 r2
  have "channels = PDict [(''train'', PStr l1), (''test'', PStr l2)]" and "w' = w2"
    by (simp_all add: upload_training_data_def)
  with ld u1 u2 r1 r2 show ?thesis
    by simp
qed

text \<open>
  C5. For each of the two channels \<^verbatim>\<open>upload_training_data\<close> declares, train and test,
  the location \<^verbatim>\<open>upload_channel\<close> returned for the channel is exactly the
  \<^verbatim>\<open>S3Uri\<close> of the entry of \<^verbatim>\<open>InputDataConfig\<close> with that channel name in the
  training-job definition, and the definition has an entry for these two channels only.
\<close>

theorem channel_locations_round_trip:
  assumes "upload_training_data e bucket w = (Inr channels, w')"
  shows "\<exists>train_location test_location w1 defn.
      upload_channel e bucket ''train'' (fst (fst (load_data e))) (snd (fst (load_data e))) w
        = (Inr train_location, w1)
    \<and> upload_channel e bucket ''test'' (fst (snd (load_data e))) (snd (snd (load_data e))) w1
        = (Inr test_location, w')
    \<and> keys channels = [''train'', ''test'']
    \<and> training_job_definition image_name channels bucket role = Inr defn
    \<and> channel_names defn = map PStr (keys channels)
    \<and> input_location defn ''train'' = Some (PStr train_location)
    \<and> input_location defn ''test'' = Some (PStr test_location)"
proof -
  from upload_training_data_steps [OF assms]
  obtain l1 l2 w1 where
    u1: "upload_channel e bucket ''train'' (fst (fst (load_data e))) (snd (fst (load_data e))) w
        = (Inr l1, w1)"
    and u2: "upload_channel e bucket ''test'' (fst (snd (load_data e))) (snd (snd (load_data e))) w1
        = (Inr l2, w')"
    and ch: "channels = PDict [(''train'', PStr l1), (''test'', PStr l2)]"
    by (elim exE conjE)
  from training_job_definition_total [of image_name "PStr l1" "PStr l2" bucket role]
  obtain defn where d: "training_job_definition image_name channels bucket role = Inr defn"
    unfolding ch by (elim exE)
  note r = training_job_definition_channels [OF d [unfolded ch]]
  have k: "keys channels = [''train'', ''test'']"
    by (simp add: ch)
  have n: "channel_names defn = map PStr (keys channels)"
    using r by (simp add: k)
  show ?thesis
    by (intro exI conjI) (rule u1 u2 k d n conjunct1 [OF conjunct2 [OF r]]
        conjunct2 [OF conjunct2 [OF r]])+
qed

theorem channel_locations_round_trip_witness:
  "fst (upload_training_data run_env ''bucket'' run_start) = Inr run_channels
   \<and> input_location run_definition ''train''
        = Some (PStr ''s3://bucket/data/DEMO-keras-cifar10/train'')
   \<and> input_location run_definition ''test''
        = Some (PStr ''s3://bucket/data/DEMO-keras-cifar10/test'')"
proof -
  have n: "list_all (\<lambda>l. l < NUM_CLASSES) [6, 9, 9, 4]" "list_all (\<lambda>l. l < NUM_CLASSES) [3, 8]"
    by (simp_all add: NUM_CLASSES_def)
  have f: "fst (upload_training_data run_env ''bucket'' run_start) = Inr run_channels"
    by (simp add: upload_training_data_def upload_channel_def to_categorical_ok [OF n(1)]
        to_categorical_ok [OF n(2)] run_env_def run_channels_def Let_def)
  then have h: "upload_training_data run_env ''bucket'' run_start
      = (Inr run_channels, snd (upload_training_data run_env ''bucket'' run_start))"
    by (simp add: prod_eq_iff)
  have d: "training_job_definition ''repo:tensorflow-1.10.1'' run_channels ''bucket'' ''role''
      = Inr run_definition"
    by (simp add: run_definition_def training_job_definition_def run_channels_def)
  from channel_locations_round_trip [OF h, of "''repo:tensorflow-1.10.1''" "''role''"]
  obtain l1 l2 w1 defn where
    u1: "upload_channel run_env ''bucket'' ''train'' (fst (fst (load_data run_env)))
           (snd (fst (load_data run_env))) run_start = (Inr l1, w1)"
    and u2: "upload_channel run_env ''bucket'' ''test'' (fst (snd (load_data run_env)))
           (snd (snd (load_data run_env))) w1
         = (Inr l2, snd (upload_training_data run_env ''bucket'' run_start))"
    and d': "training_job_definition ''repo:tensorflow-1.10.1'' run_channels ''bucket'' ''role''
         = Inr defn"
    and i1: "input_location defn ''train'' = Some (PStr l1)"
    and i2: "input_location defn ''test'' = Some (PStr l2)"
    by (elim exE conjE)
  from d d' have e: "defn = run_definition"
    by simp
  have "l1 = ''s3://bucket/data/DEMO-keras-cifar10/train''"
    using u1 by (simp add: upload_channel_def to_categorical_ok [OF n(1)] run_env_def Let_def)
  moreover have "l2 = ''s3://bucket/data/DEMO-keras-cifar10/test''"
    using u2 by (simp add: upload_channel_def to_categorical_ok [OF n(2)] run_env_def Let_def)
  ultimately show ?thesis
    using f i1 i2 e by simp
qed

lemma static_entries_definition:
  assumes "training_job_definition image_name channels bucket role = Inr defn"
  shows "static_entries defn =
     [(''batch_size'', PStr ''32''),
      (''data_augmentation'', PStr ''True''),
      (''height_shift_range'', PStr ''0.1''),
      (''width_shift_range'', PStr ''0.1''),
      (''epochs'', PStr ''1'')]"
  using assms
  by (auto simp: training_job_definition_def static_entries_def split: option.splits)

lemma run_definition_built:
  "training_job_definition ''repo:tensorflow-1.10.1'' run_channels ''bucket'' ''role''
     = Inr run_definition"
  by (simp add: run_definition_def training_job_definition_def run_channels_def)

lemma range_names_config: "range_names tuning_job_config = [''learning_rate'']"
  by (simp add: range_names_def ranges_of_def tuning_job_config_def List.map_filter_def)

lemma range_names_colliding: "range_names colliding_config = [''learning_rate'', ''batch_size'']"
  by (simp add: range_names_def ranges_of_def colliding_config_def List.map_filter_def)

lemma limits_config: "resource_limits tuning_job_config = Some (9, 9)"
  by (simp add: resource_limits_def tuning_job_config_def)

lemma limits_checkpoint: "resource_limits tuning_job_config_checkpoint = Some (9, 3)"
  by (simp add: resource_limits_def tuning_job_config_checkpoint_def)

lemma limits_overcommitted: "resource_limits overcommitted_config = Some (9, 10)"
  by (simp add: resource_limits_def overcommitted_config_def)

lemma parse_bounds:
  "parse_decimal ''0.0001'' = Some (1, 4)" "parse_decimal ''0.001'' = Some (1, 3)"
  by code_simp+

lemma bounds_config:
  "map bounds_of (ranges_of tuning_job_config ''ContinuousParameterRanges'')
     = [Some (''0.0001'', ''0.001'')]"
  by (simp add: ranges_of_def tuning_job_config_def bounds_of_def)

lemma bounds_inverted:
  "map bounds_of (ranges_of inverted_config ''ContinuousParameterRanges'')
     = [Some (''0.001'', ''0.0001'')]"
  by (simp add: ranges_of_def inverted_config_def bounds_of_def)

lemma ordered_config:
  "list_all bounds_ordered (ranges_of tuning_job_config ''ContinuousParameterRanges''
      @ ranges_of tuning_job_config ''IntegerParameterRanges'')"
  by (simp add: ranges_of_def tuning_job_config_def bounds_ordered_def bounds_of_def
      parse_bounds decimal_less_def)

lemma unordered_inverted:
  "\<not> list_all bounds_ordered (ranges_of inverted_config ''ContinuousParameterRanges'')"
  by (simp add: ranges_of_def inverted_config_def bounds_ordered_def bounds_of_def
      parse_bounds decimal_less_def)

lemma str_values:
  "str (PInt 32) = Some ''32''"
  "str (PBool True) = Some ''True''"
  "str (PFloat 1 1) = Some ''0.1''"
  "str (PInt 1) = Some ''1''"
  "str (PFloat 1 4) = Some ''0.0001''"
  "str (PFloat 1 (Suc 0)) = Some ''0.1''"
  by code_simp+

lemma hyperparameters_values:
  "dict_get hyperparameters ''batch_size'' = Some (PInt 32)"
  "dict_get hyperparameters ''data_augmentation'' = Some (PBool True)"
  "dict_get hyperparameters ''learning_rate'' = Some (PFloat 1 4)"
  "dict_get hyperparameters ''width_shift_range'' = Some (PFloat 1 1)"
  "dict_get hyperparameters ''height_shift_range'' = Some (PFloat 1 1)"
  "dict_get hyperparameters ''epochs'' = Some (PInt 1)"
  by (simp_all add: hyperparameters_def)

text \<open>
  C10. In the documents sent to the tuning service every hyperparameter value is a string:
  each of the five static hyperparameters and both bounds of the continuous range. The
  local run gets typed values for the same names: the integer 32, the boolean True, the
  float 0.0001. Each static value sent is exactly what \<^verbatim>\<open>str\<close> gives of the value of
  the local run under the same name, and the lower bound of \<^verbatim>\<open>learning_rate\<close> is
  what \<^verbatim>\<open>str\<close> gives of the learning rate of the local run.
\<close>

theorem hyperparameters_sent_as_strings:
  assumes "training_job_definition image_name channels bucket role = Inr defn"
  shows "static_names defn = [''batch_size'', ''data_augmentation'', ''height_shift_range'',
                              ''width_shift_range'', ''epochs'']
   \<and> list_all (\<lambda>(k, v). is_str v) (static_entries defn)
   \<and> map bounds_of (ranges_of tuning_job_config ''ContinuousParameterRanges'')
       = [Some (''0.0001'', ''0.001'')]
   \<and> dict_get hyperparameters ''batch_size'' = Some (PInt 32)
   \<and> dict_get hyperparameters ''data_augmentation'' = Some (PBool True)
   \<and> dict_get hyperparameters ''learning_rate'' = Some (PFloat 1 4)
   \<and> list_all (\<lambda>(k, v). case dict_get hyperparameters k of
                            None \<Rightarrow> False
                          | Some h \<Rightarrow> (case str h of None \<Rightarrow> False | Some s \<Rightarrow> v = PStr s))
         (static_entries defn)
   \<and> str (PFloat 1 4) = Some ''0.0001''"
proof (intro conjI)
  note se = static_entries_definition [OF assms]
  show "static_names defn = [''batch_size'', ''data_augmentation'', ''height_shift_range'',
                              ''width_shift_range'', ''epochs'']"
    by (simp add: static_names_def se)
  show "list_all (\<lambda>(k, v). is_str v) (static_entries defn)"
    by (simp add: se)
  show "map bounds_of (ranges_of tuning_job_config ''ContinuousParameterRanges'')
       = [Some (''0.0001'', ''0.001'')]"
    by (rule bounds_config)
  show "dict_get hyperparameters ''batch_size'' = Some (PInt 32)"
    by (rule hyperparameters_values)
  show "dict_get hyperparameters ''data_augmentation'' = Some (PBool True)"
    by (rule hyperparameters_values)
  show "dict_get hyperparameters ''learning_rate'' = Some (PFloat 1 4)"
    by (rule hyperparameters_values)
  show "list_all (\<lambda>(k, v). case dict_get hyperparameters k of
                            None \<Rightarrow> False
                          | Some h \<Rightarrow> (case str h of None \<Rightarrow> False | Some s \<Rightarrow> v = PStr s))
         (static_entries defn)"
    by (simp add: se hyperparameters_values str_values del: str.simps)
  show "str (PFloat 1 4) = Some ''0.0001''"
    by (rule str_values(5))
qed

theorem hyperparameters_sent_as_strings_witness:
  "static_entries run_definition =
     [(''batch_size'', PStr ''32''),
      (''data_augmentation'', PStr ''True''),
      (''height_shift_range'', PStr ''0.1''),
      (''width_shift_range'', PStr ''0.1''),
      (''epochs'', PStr ''1'')]
   \<and> list_all (\<lambda>(k, v). is_str v) (static_entries run_definition)
   \<and> list_all (\<lambda>(k, v). case dict_get hyperparameters k of
                            None \<Rightarrow> False
                          | Some h \<Rightarrow> (case str h of None \<Rightarrow> False | Some s \<Rightarrow> v = PStr s))
         (static_entries run_definition)"
proof -
  note t = hyperparameters_sent_as_strings [OF run_definition_built]
  show ?thesis
    by (intro conjI)
      (rule static_entries_definition [OF run_definition_built]
         conjunct1 [OF conjunct2 [OF t]]
         conjunct1 [OF conjunct2 [OF conjunct2 [OF conjunct2 [OF conjunct2
           [OF conjunct2 [OF conjunct2 [OF t]]]]]]])+
qed

lemma send_request_log:
  "\<exists>k. 1 \<le> k \<and> k \<le> Suc retries
     \<and> requests (snd (send_request e retries attempt name config defn w))
         = requests w @ replicate k (name, config, defn)"
proof (induction retries arbitrary: attempt w)
  case 0
  have "requests (snd (send_request e 0 attempt name config defn w))
      = requests w @ replicate 1 (name, config, defn)"
    by (cases "tuning_service e attempt name config defn") (simp_all add: Let_def)
  then show ?case
    by (intro exI [where x = 1]) simp
next
  case (Suc retries)
  let ?w = "w\<lparr>requests := requests w @ [(name, config, defn)]\<rparr>"
  show ?case
  proof (cases "tuning_service e attempt name config defn")
    case (Created response)
    then have "requests (snd (send_request e (Suc retries) attempt name config defn w))
        = requests w @ replicate 1 (name, config, defn)"
      by (simp add: Let_def)
    then show ?thesis
      by (intro exI [where x = 1]) simp
  next
    case (Refused err)
    then have "requests (snd (send_request e (Suc retries) attempt name config defn w))
        = requests w @ replicate 1 (name, config, defn)"
      by (simp add: Let_def)
    then show ?thesis
      by (intro exI [where x = 1]) simp
  next
    case (Retryable err)
    from Suc.IH [of "Suc attempt" ?w] obtain k where
      k: "1 \<le> k" "k \<le> Suc retries"
      and r: "requests (snd (send_request e retries (Suc attempt) name config defn ?w))
          = requests ?w @ replicate k (name, config, defn)"
      by (elim exE conjE)
    from Retryable r
    have "requests (snd (send_request e (Suc retries) attempt name config defn w))
        = requests w @ replicate (Suc k) (name, config, defn)"
      by (simp add: Let_def)
    with k show ?thesis
      by (intro exI [where x = "Suc k"]) simp
  qed
qed

lemma send_request_answered:
  assumes "tuning_service e attempt name config defn = Created response"
  shows "send_request e retries attempt name config defn w
     = (Inr response, w\<lparr>requests := requests w @ [(name, config, defn)]\<rparr>)"
  using assms by (cases retries) (simp_all add: Let_def)

lemma create_job_rejected:
  assumes "prepare_request e name config defn = Some err"
  shows "create_hyper_parameter_tuning_job e name config defn w = (Inl err, w)"
  using assms by (simp add: create_hyper_parameter_tuning_job_def)

lemma create_job_sent:
  assumes "prepare_request e name config defn = None"
  shows "\<exists>k. 1 \<le> k \<and> k \<le> Suc (max_retries e)
     \<and> requests (snd (create_hyper_parameter_tuning_job e name config defn w))
         = requests w @ replicate k (name, config, defn)"
  using assms send_request_log [of "max_retries e" e 0 name config defn w]
  by (simp add: create_hyper_parameter_tuning_job_def)

lemma create_job_fails_locally_iff:
  "fails_locally (create_hyper_parameter_tuning_job e name config defn w) w
     \<longleftrightarrow> prepare_request e name config defn \<noteq> None"
proof (cases "prepare_request e name config defn")
  case None
  from create_job_sent [OF None, of w] obtain k where "1 \<le> k"
    and "requests (snd (create_hyper_parameter_tuning_job e name config defn w))
         = requests w @ replicate k (name, config, defn)"
    by (elim exE conjE)
  then have "requests (snd (create_hyper_parameter_tuning_job e name config defn w))
      \<noteq> requests w"
    by (cases k) simp_all
  with None show ?thesis
    by (simp add: fails_locally_def)
next
  case (Some err)
  then show ?thesis
    by (simp add: fails_locally_def create_job_rejected)
qed

lemma create_job_run:
  assumes "validate_parameters name config defn = None"
  shows "create_hyper_parameter_tuning_job run_env name config defn run_start =
     (Inr (PDict [(''HyperParameterTuningJobArn'', PStr (''arn:'' @ name))]),
      run_start\<lparr>requests := [(name, config, defn)]\<rparr>)"
proof -
  have p: "prepare_request run_env name config defn = None"
    using assms by (simp add: run_env_def)
  have t: "tuning_service run_env 0 name config defn
      = Created (PDict [(''HyperParameterTuningJobArn'', PStr (''arn:'' @ name))])"
    by (simp add: run_env_def)
  show ?thesis
    by (simp add: create_hyper_parameter_tuning_job_def p send_request_answered [OF t]
        run_start_def)
qed

lemma recorded_definition_built:
  "training_job_definition recorded_image recorded_channels recorded_bucket recorded_role
     = Inr recorded_definition"
  by (simp add: recorded_definition_def training_job_definition_def recorded_channels_def)

lemma validation_accepts:
  "validate_parameters recorded_name tuning_job_config recorded_definition = None"
  "validate_parameters recorded_name tuning_job_config_checkpoint recorded_definition = None"
  "validate_parameters recorded_name colliding_config recorded_definition = None"
  "validate_parameters recorded_name overcommitted_config recorded_definition = None"
  "validate_parameters recorded_name inverted_config recorded_definition = None"
  by code_simp+

lemma validation_rejects:
  "validate_parameters recorded_name tuning_job_config run_definition
     = Some ParamValidationError"
  "validate_parameters recorded_name tuning_job_config_checkpoint run_definition
     = Some ParamValidationError"
  by code_simp+

text \<open>
  C1, as the claim states it, fails: with the configuration edited to search
  \<^verbatim>\<open>batch_size\<close>, a name the training-job definition also fixes, and the documents
  otherwise those of the recorded run, the client's validation accepts the arguments, the
  cell that launches the job does not fail locally and the request is sent to the service.
\<close>

theorem colliding_names_counterexample:
  "training_job_definition recorded_image recorded_channels recorded_bucket recorded_role
     = Inr recorded_definition
   \<and> ''batch_size'' \<in> set (range_names colliding_config)
          \<inter> set (static_names recorded_definition)
   \<and> prepare_request run_env recorded_name colliding_config recorded_definition = None
   \<and> \<not> fails_locally
        (create_hyper_parameter_tuning_job run_env recorded_name colliding_config
           recorded_definition run_start) run_start
   \<and> requests (snd (create_hyper_parameter_tuning_job run_env recorded_name colliding_config
          recorded_definition run_start))
     = [(recorded_name, colliding_config, recorded_definition)]"
proof (intro conjI)
  show "training_job_definition recorded_image recorded_channels recorded_bucket recorded_role
     = Inr recorded_definition"
    by (rule recorded_definition_built)
next
  show "''batch_size'' \<in> set (range_names colliding_config)
          \<inter> set (static_names recorded_definition)"
    by (simp add: range_names_colliding static_names_def
        static_entries_definition [OF recorded_definition_built])
next
  show p: "prepare_request run_env recorded_name colliding_config recorded_definition = None"
    by (simp add: run_env_def validation_accepts)
  show "\<not> fails_locally
        (create_hyper_parameter_tuning_job run_env recorded_name colliding_config
           recorded_definition run_start) run_start"
    by (simp add: create_job_fails_locally_iff p)
  show "requests (snd (create_hyper_parameter_tuning_job run_env recorded_name colliding_config
          recorded_definition run_start))
     = [(recorded_name, colliding_config, recorded_definition)]"
    by (simp add: create_job_run validation_accepts)
qed

text \<open>
  C1, amended. The notebook has no check of its own for a name that is both fixed and
  searched: the cell that launches the job hands its three arguments to the client, and
  fails locally exactly when the client raises before it sends anything, which it does
  where its validation of the arguments against the service model rejects them. Otherwise
  the request is sent, at least once and at most once more than the client retries. In
  the documents the notebook itself assembles, the searched name, \<^verbatim>\<open>learning_rate\<close>,
  is none of the five static names.
\<close>

theorem names_checked_by_client_only:
  "(fails_locally (create_hyper_parameter_tuning_job e name config defn w) w
      \<longleftrightarrow> prepare_request e name config defn \<noteq> None)
   \<and> (prepare_request e name config defn = Some err \<longrightarrow>
        create_hyper_parameter_tuning_job e name config defn w = (Inl err, w))
   \<and> (prepare_request e name config defn = None \<longrightarrow>
        (\<exists>k. 1 \<le> k \<and> k \<le> Suc (max_retries e)
           \<and> requests (snd (create_hyper_parameter_tuning_job e name config defn w))
               = requests w @ replicate k (name, config, defn)))
   \<and> range_names tuning_job_config = [''learning_rate'']
   \<and> (training_job_definition image_name channels bucket role = Inr built \<longrightarrow>
        static_names built = [''batch_size'', ''data_augmentation'', ''height_shift_range'',
                              ''width_shift_range'', ''epochs'']
        \<and> set (range_names tuning_job_config) \<inter> set (static_names built) = {})"
proof (intro conjI impI)
  show "fails_locally (create_hyper_parameter_tuning_job e name config defn w) w
      \<longleftrightarrow> prepare_request e name config defn \<noteq> None"
    by (rule create_job_fails_locally_iff)
next
  assume "prepare_request e name config defn = Some err"
  then show "create_hyper_parameter_tuning_job e name config defn w = (Inl err, w)"
    by (rule create_job_rejected)
next
  assume "prepare_request e name config defn = None"
  then show "\<exists>k. 1 \<le> k \<and> k \<le> Suc (max_retries e)
           \<and> requests (snd (create_hyper_parameter_tuning_job e name config defn w))
               = requests w @ replicate k (name, config, defn)"
    by (rule create_job_sent)
next
  show "range_names tuning_job_config = [''learning_rate'']"
    by (rule range_names_config)
next
  assume b: "training_job_definition image_name channels bucket role = Inr built"
  show "static_names built = [''batch_size'', ''data_augmentation'', ''height_shift_range'',
                              ''width_shift_range'', ''epochs'']"
    by (simp add: static_names_def static_entries_definition [OF b])
  then show "set (range_names tuning_job_config) \<inter> set (static_names built) = {}"
    by (simp add: range_names_config)
qed

theorem names_checked_by_client_only_witness:
  "\<not> fails_locally
      (create_hyper_parameter_tuning_job run_env recorded_name tuning_job_config
         recorded_definition run_start) run_start
   \<and> requests (snd (create_hyper_parameter_tuning_job run_env recorded_name tuning_job_config
          recorded_definition run_start))
     = [(recorded_name, tuning_job_config, recorded_definition)]
   \<and> create_hyper_parameter_tuning_job run_env recorded_name tuning_job_config run_definition
        run_start
     = (Inl ParamValidationError, run_start)
   \<and> static_names recorded_definition =
        [''batch_size'', ''data_augmentation'', ''height_shift_range'',
         ''width_shift_range'', ''epochs'']
   \<and> set (range_names tuning_job_config) \<inter> set (static_names recorded_definition) = {}"
proof -
  have p: "prepare_request run_env recorded_name tuning_job_config recorded_definition = None"
    by (simp add: run_env_def validation_accepts)
  have q: "prepare_request run_env recorded_name tuning_job_config run_definition
      = Some ParamValidationError"
    by (simp add: run_env_def validation_rejects)
  note sent = names_checked_by_client_only [of run_env recorded_name tuning_job_config recorded_definition
      run_start ParamValidationError recorded_image recorded_channels
      recorded_bucket recorded_role recorded_definition]
  note kept = names_checked_by_client_only [of run_env recorded_name tuning_job_config run_definition
      run_start ParamValidationError]
  from conjunct1 [OF sent] p
  have a: "\<not> fails_locally
      (create_hyper_parameter_tuning_job run_env recorded_name tuning_job_config
         recorded_definition run_start) run_start"
    by simp
  from mp [OF conjunct1 [OF conjunct2 [OF conjunct2 [OF sent]]] p]
  obtain k where "1 \<le> k" and "k \<le> Suc (max_retries run_env)"
    and "requests (snd (create_hyper_parameter_tuning_job run_env recorded_name tuning_job_config
          recorded_definition run_start))
        = requests run_start @ replicate k (recorded_name, tuning_job_config, recorded_definition)"
    by (elim exE conjE)
  have b: "requests (snd (create_hyper_parameter_tuning_job run_env recorded_name tuning_job_config
          recorded_definition run_start))
     = [(recorded_name, tuning_job_config, recorded_definition)]"
    by (simp add: create_job_run validation_accepts)
  have c: "create_hyper_parameter_tuning_job run_env recorded_name tuning_job_config run_definition
        run_start
     = (Inl ParamValidationError, run_start)"
    by (rule mp [OF conjunct1 [OF conjunct2 [OF kept]] q])
  note d = mp [OF conjunct2 [OF conjunct2 [OF conjunct2 [OF conjunct2 [OF sent]]]]
      recorded_definition_built]
  show ?thesis
    by (intro conjI) (rule a b c conjunct1 [OF d] conjunct2 [OF d])+
qed

text \<open>
  C2, as the claim states it, fails: with the configuration edited to allow 10 parallel
  training jobs out of 9 in total, and the documents otherwise those of the recorded run,
  the client's validation accepts the arguments, the cell that launches the job does not
  fail locally and the request is sent to the service with these limits.
\<close>

theorem overcommitted_limits_counterexample:
  "resource_limits overcommitted_config = Some (9, 10)
   \<and> prepare_request run_env recorded_name overcommitted_config recorded_definition = None
   \<and> \<not> fails_locally
        (create_hyper_parameter_tuning_job run_env recorded_name overcommitted_config
           recorded_definition run_start) run_start
   \<and> requests (snd (create_hyper_parameter_tuning_job run_env recorded_name overcommitted_config
          recorded_definition run_start))
     = [(recorded_name, overcommitted_config, recorded_definition)]"
proof (intro conjI)
  show "resource_limits overcommitted_config = Some (9, 10)"
    by (rule limits_overcommitted)
next
  show p: "prepare_request run_env recorded_name overcommitted_config recorded_definition = None"
    by (simp add: run_env_def validation_accepts)
  show "\<not> fails_locally
        (create_hyper_parameter_tuning_job run_env recorded_name overcommitted_config
           recorded_definition run_start) run_start"
    by (simp add: create_job_fails_locally_iff p)
  show "requests (snd (create_hyper_parameter_tuning_job run_env recorded_name overcommitted_config
          recorded_definition run_start))
     = [(recorded_name, overcommitted_config, recorded_definition)]"
    by (simp add: create_job_run validation_accepts)
qed

text \<open>
  C2, amended. The notebook has no check of its own that the parallel jobs stay within
  the total: the cell that launches the job hands its three arguments to the client, and
  fails locally exactly when the client raises before it sends anything, which it does
  where its validation of the arguments against the service model rejects them. Otherwise
  the request is sent, at least once and at most once more than the client retries. The
  configuration the notebook itself assembles keeps the parallel jobs within the total: 9
  of 9 in \<^verbatim>\<open>version2_jason.ipynb\<close> and 3 of 9 in its checkpoint.
\<close>

theorem limit_order_checked_by_client_only:
  "(fails_locally (create_hyper_parameter_tuning_job e name config defn w) w
      \<longleftrightarrow> prepare_request e name config defn \<noteq> None)
   \<and> (prepare_request e name config defn = Some err \<longrightarrow>
        create_hyper_parameter_tuning_job e name config defn w = (Inl err, w))
   \<and> (prepare_request e name config defn = None \<longrightarrow>
        (\<exists>k. 1 \<le> k \<and> k \<le> Suc (max_retries e)
           \<and> requests (snd (create_hyper_parameter_tuning_job e name config defn w))
               = requests w @ replicate k (name, config, defn)))
   \<and> resource_limits tuning_job_config = Some (9, 9)
   \<and> resource_limits tuning_job_config_checkpoint = Some (9, 3)
   \<and> (case resource_limits tuning_job_config of
         None \<Rightarrow> False | Some (n_total, n_parallel) \<Rightarrow> n_parallel \<le> n_total)
   \<and> (case resource_limits tuning_job_config_checkpoint of
         None \<Rightarrow> False | Some (n_total, n_parallel) \<Rightarrow> n_parallel \<le> n_total)"
proof (intro conjI impI)
  show "fails_locally (create_hyper_parameter_tuning_job e name config defn w) w
      \<longleftrightarrow> prepare_request e name config defn \<noteq> None"
    by (rule create_job_fails_locally_iff)
next
  assume "prepare_request e name config defn = Some err"
  then show "create_hyper_parameter_tuning_job e name config defn w = (Inl err, w)"
    by (rule create_job_rejected)
next
  assume "prepare_request e name config defn = None"
  then show "\<exists>k. 1 \<le> k \<and> k \<le> Suc (max_retries e)
           \<and> requests (snd (create_hyper_parameter_tuning_job e name config defn w))
               = requests w @ replicate k (name, config, defn)"
    by (rule create_job_sent)
next
  show "resource_limits tuning_job_config = Some (9, 9)"
    by (rule limits_config)
next
  show "resource_limits tuning_job_config_checkpoint = Some (9, 3)"
    by (rule limits_checkpoint)
next
  show "case resource_limits tuning_job_config of
         None \<Rightarrow> False | Some (n_total, n_parallel) \<Rightarrow> n_parallel \<le> n_total"
    by (simp add: limits_config)
next
  show "case resource_limits tuning_job_config_checkpoint of
         None \<Rightarrow> False | Some (n_total, n_parallel) \<Rightarrow> n_parallel \<le> n_total"
    by (simp add: limits_checkpoint)
qed

theorem limit_order_checked_by_client_only_witness:
  "\<not> fails_locally
      (create_hyper_parameter_tuning_job run_env recorded_name tuning_job_config_checkpoint
         recorded_definition run_start) run_start
   \<and> requests (snd (create_hyper_parameter_tuning_job run_env recorded_name tuning_job_config_checkpoint
          recorded_definition run_start))
     = [(recorded_name, tuning_job_config_checkpoint, recorded_definition)]
   \<and> create_hyper_parameter_tuning_job run_env recorded_name tuning_job_config_checkpoint run_definition
        run_start
     = (Inl ParamValidationError, run_start)
   \<and> resource_limits tuning_job_config_checkpoint = Some (9, 3)"
proof -
  have p: "prepare_request run_env recorded_name tuning_job_config_checkpoint recorded_definition = None"
    by (simp add: run_env_def validation_accepts)
  have q: "prepare_request run_env recorded_name tuning_job_config_checkpoint run_definition
      = Some ParamValidationError"
    by (simp add: run_env_def validation_rejects)
  note sent = limit_order_checked_by_client_only [of run_env recorded_name tuning_job_config_checkpoint recorded_definition
      run_start ParamValidationError]
  note kept = limit_order_checked_by_client_only [of run_env recorded_name tuning_job_config_checkpoint run_definition
      run_start ParamValidationError]
  from conjunct1 [OF sent] p
  have a: "\<not> fails_locally
      (create_hyper_parameter_tuning_job run_env recorded_name tuning_job_config_checkpoint
         recorded_definition run_start) run_start"
    by simp
  from mp [OF conjunct1 [OF conjunct2 [OF conjunct2 [OF sent]]] p]
  obtain k where "1 \<le> k" and "k \<le> Suc (max_retries run_env)"
    and "requests (snd (create_hyper_parameter_tuning_job run_env recorded_name tuning_job_config_checkpoint
          recorded_definition run_start))
        = requests run_start @ replicate k (recorded_name, tuning_job_config_checkpoint, recorded_definition)"
    by (elim exE conjE)
  have b: "requests (snd (create_hyper_parameter_tuning_job run_env recorded_name tuning_job_config_checkpoint
          recorded_definition run_start))
     = [(recorded_name, tuning_job_config_checkpoint, recorded_definition)]"
    by (simp add: create_job_run validation_accepts)
  have c: "create_hyper_parameter_tuning_job run_env recorded_name tuning_job_config_checkpoint run_definition
        run_start
     = (Inl ParamValidationError, run_start)"
    by (rule mp [OF conjunct1 [OF conjunct2 [OF kept]] q])
  show ?thesis
    by (intro conjI)
      (rule a b c conjunct1 [OF conjunct2 [OF conjunct2 [OF conjunct2 [OF conjunct2 [OF sent]]]]])+
qed

text \<open>
  C3, as the claim states it, fails: with the configuration edited so that the minimum of
  \<^verbatim>\<open>learning_rate\<close> is 0.001 and its maximum 0.0001, and the documents otherwise those
  of the recorded run, the client's validation accepts the arguments, the cell that
  launches the job does not fail locally and the request is sent to the service with
  these bounds.
\<close>

theorem inverted_bounds_counterexample:
  "map bounds_of (ranges_of inverted_config ''ContinuousParameterRanges'')
     = [Some (''0.001'', ''0.0001'')]
   \<and> \<not> list_all bounds_ordered (ranges_of inverted_config ''ContinuousParameterRanges'')
   \<and> prepare_request run_env recorded_name inverted_config recorded_definition = None
   \<and> \<not> fails_locally
        (create_hyper_parameter_tuning_job run_env recorded_name inverted_config
           recorded_definition run_start) run_start
   \<and> requests (snd (create_hyper_parameter_tuning_job run_env recorded_name inverted_config
          recorded_definition run_start))
     = [(recorded_name, inverted_config, recorded_definition)]"
proof (intro conjI)
  show "map bounds_of (ranges_of inverted_config ''ContinuousParameterRanges'')
     = [Some (''0.001'', ''0.0001'')]"
    by (rule bounds_inverted)
next
  show "\<not> list_all bounds_ordered (ranges_of inverted_config ''ContinuousParameterRanges'')"
    by (rule unordered_inverted)
next
  show p: "prepare_request run_env recorded_name inverted_config recorded_definition = None"
    by (simp add: run_env_def validation_accepts)
  show "\<not> fails_locally
        (create_hyper_parameter_tuning_job run_env recorded_name inverted_config
           recorded_definition run_start) run_start"
    by (simp add: create_job_fails_locally_iff p)
  show "requests (snd (create_hyper_parameter_tuning_job run_env recorded_name inverted_config
          recorded_definition run_start))
     = [(recorded_name, inverted_config, recorded_definition)]"
    by (simp add: create_job_run validation_accepts)
qed

text \<open>
  C3, amended. The notebook has no check of its own that the minimum of a range is below
  its maximum: the bounds are strings it never reads, the cell that launches the job
  hands its three arguments to the client, and fails locally exactly when the client
  raises before it sends anything, which it does where its validation of the arguments
  against the service model rejects them. Otherwise the request is sent, at least once
  and at most once more than the client retries. The one range the notebook itself
  declares, the continuous range of \<^verbatim>\<open>learning_rate\<close>, has its minimum 0.0001
  strictly below its maximum 0.001; it declares no integer range.
\<close>

theorem bound_order_checked_by_client_only:
  "(fails_locally (create_hyper_parameter_tuning_job e name config defn w) w
      \<longleftrightarrow> prepare_request e name config defn \<noteq> None)
   \<and> (prepare_request e name config defn = Some err \<longrightarrow>
        create_hyper_parameter_tuning_job e name config defn w = (Inl err, w))
   \<and> (prepare_request e name config defn = None \<longrightarrow>
        (\<exists>k. 1 \<le> k \<and> k \<le> Suc (max_retries e)
           \<and> requests (snd (create_hyper_parameter_tuning_job e name config defn w))
               = requests w @ replicate k (name, config, defn)))
   \<and> map bounds_of (ranges_of tuning_job_config ''ContinuousParameterRanges'')
       = [Some (''0.0001'', ''0.001'')]
   \<and> ranges_of tuning_job_config ''IntegerParameterRanges'' = []
   \<and> list_all bounds_ordered (ranges_of tuning_job_config ''ContinuousParameterRanges''
         @ ranges_of tuning_job_config ''IntegerParameterRanges'')"
proof (intro conjI impI)
  show "fails_locally (create_hyper_parameter_tuning_job e name config defn w) w
      \<longleftrightarrow> prepare_request e name config defn \<noteq> None"
    by (rule create_job_fails_locally_iff)
next
  assume "prepare_request e name config defn = Some err"
  then show "create_hyper_parameter_tuning_job e name config defn w = (Inl err, w)"
    by (rule create_job_rejected)
next
  assume "prepare_request e name config defn = None"
  then show "\<exists>k. 1 \<le> k \<and> k \<le> Suc (max_retries e)
           \<and> requests (snd (create_hyper_parameter_tuning_job e name config defn w))
               = requests w @ replicate k (name, config, defn)"
    by (rule create_job_sent)
next
  show "map bounds_of (ranges_of tuning_job_config ''ContinuousParameterRanges'')
       = [Some (''0.0001'', ''0.001'')]"
    by (rule bounds_config)
next
  show "ranges_of tuning_job_config ''IntegerParameterRanges'' = []"
    by (simp add: ranges_of_def tuning_job_config_def)
next
  show "list_all bounds_ordered (ranges_of tuning_job_config ''ContinuousParameterRanges''
         @ ranges_of tuning_job_config ''IntegerParameterRanges'')"
    by (rule ordered_config)
qed

theorem bound_order_checked_by_client_only_witness:
  "\<not> fails_locally
      (create_hyper_parameter_tuning_job run_env recorded_name tuning_job_config
         recorded_definition run_start) run_start
   \<and> requests (snd (create_hyper_parameter_tuning_job run_env recorded_name tuning_job_config
          recorded_definition run_start))
     = [(recorded_name, tuning_job_config, recorded_definition)]
   \<and> create_hyper_parameter_tuning_job run_env recorded_name tuning_job_config run_definition
        run_start
     = (Inl ParamValidationError, run_start)
   \<and> map bounds_of (ranges_of tuning_job_config ''ContinuousParameterRanges'')
       = [Some (''0.0001'', ''0.001'')]"
proof -
  have p: "prepare_request run_env recorded_name tuning_job_config recorded_definition = None"
    by (simp add: run_env_def validation_accepts)
  have q: "prepare_request run_env recorded_name tuning_job_config run_definition
      = Some ParamValidationError"
    by (simp add: run_env_def validation_rejects)
  note sent = bound_order_checked_by_client_only [of run_env recorded_name tuning_job_config recorded_definition
      run_start ParamValidationError]
  note kept = bound_order_checked_by_client_only [of run_env recorded_name tuning_job_config run_definition
      run_start ParamValidationError]
  from conjunct1 [OF sent] p
  have a: "\<not> fails_locally
      (create_hyper_parameter_tuning_job run_env recorded_name tuning_job_config
         recorded_definition run_start) run_start"
    by simp
  from mp [OF conjunct1 [OF conjunct2 [OF conjunct2 [OF sent]]] p]
  obtain k where "1 \<le> k" and "k \<le> Suc (max_retries run_env)"
    and "requests (snd (create_hyper_parameter_tuning_job run_env recorded_name tuning_job_config
          recorded_definition run_start))
        = requests run_start @ replicate k (recorded_name, tuning_job_config, recorded_definition)"
    by (elim exE conjE)
  have b: "requests (snd (create_hyper_parameter_tuning_job run_env recorded_name tuning_job_config
          recorded_definition run_start))
     = [(recorded_name, tuning_job_config, recorded_definition)]"
    by (simp add: create_job_run validation_accepts)
  have c: "create_hyper_parameter_tuning_job run_env recorded_name tuning_job_config run_definition
        run_start
     = (Inl ParamValidationError, run_start)"
    by (rule mp [OF conjunct1 [OF conjunct2 [OF kept]] q])
  show ?thesis
    by (intro conjI)
      (rule a b c conjunct1 [OF conjunct2 [OF conjunct2 [OF conjunct2 [OF sent]]]])+
qed

end
